theory Spec2Isabelle
  imports Main "HOL-Library.Monad_Syntax"
begin

section \<open>Callbacks, the logger and the object store\<close>

text \<open>
  A \<^verbatim>\<open>std::function<void()>\<close> is either empty or holds a callable. Callables are
  values of an arbitrary type \<open>'c\<close>; copying a \<^verbatim>\<open>std::function\<close> copies that value.
  The test \<^verbatim>\<open>if (f)\<close> is the test for \<open>Some\<close>.
\<close>

type_synonym 'c std_function = "'c option"

type_synonym addr = nat

text \<open>
  What can be observed of a run: the lines handed to the logger and the calls of
  callbacks, in the order in which they happen. A call records the variable through
  which the callable was called (\<open>'k\<close>: a member or a parameter) and the callable.
\<close>

datatype ('k, 'c) event = Debug string | Invoke 'k 'c

text \<open>
  The objects alive (by address, so that \<^verbatim>\<open>this != &other\<close> can be decided), the
  events so far, and the state the callbacks have captured (a counter, for instance).
\<close>

record ('o, 'k, 'c, 'u) world =
  objects :: "addr \<rightharpoonup> 'o"
  events :: "('k, 'c) event list"
  user :: 'u

text \<open>
  What the callables do when called is a parameter of every operation: a callable sees
  the whole world at the moment of the call and yields the new captured state. It
  returns, and it does not assign to the hook objects themselves (the header warns
  against modifying the object inside a hook).
\<close>

type_synonym ('o, 'k, 'c, 'u) callables = "'c \<Rightarrow> ('o, 'k, 'c, 'u) world \<Rightarrow> 'u"

definition debug :: "string \<Rightarrow> ('o, 'k, 'c, 'u) world \<Rightarrow> ('o, 'k, 'c, 'u) world" where
  \<comment> \<open>Modelled from the spec: \<^verbatim>\<open>global_logger\<close> comes from sbpt_generated_includes.hpp,
      which is not among the sources; the sink "accepts a string-like debug message".\<close>
  "debug msg w = w\<lparr>events := events w @ [Debug msg]\<rparr>"

definition call :: "('o, 'k, 'c, 'u) callables \<Rightarrow> 'k \<Rightarrow> 'c \<Rightarrow>
    ('o, 'k, 'c, 'u) world \<Rightarrow> ('o, 'k, 'c, 'u) world" where
  \<comment> \<open>\<^verbatim>\<open>f();\<close>\<close>
  "call run k c w = w\<lparr>events := events w @ [Invoke k c], user := run c w\<rparr>"

definition call_if_set :: "('o, 'k, 'c, 'u) callables \<Rightarrow> 'k \<Rightarrow> 'c std_function \<Rightarrow>
    ('o, 'k, 'c, 'u) world \<Rightarrow> ('o, 'k, 'c, 'u) world" where
  \<comment> \<open>\<^verbatim>\<open>if (f) f();\<close>\<close>
  "call_if_set run k f w = (case f of None \<Rightarrow> w | Some c \<Rightarrow> call run k c w)"

section \<open>SpecialMemberHooks\<close>

record 'c SpecialMemberHooks =
  on_construct :: "'c std_function"
  on_copy_construct :: "'c std_function"
  on_move_construct :: "'c std_function"
  on_copy_assign :: "'c std_function"
  on_move_assign :: "'c std_function"
  on_destroy :: "'c std_function"

datatype slot =
  OnConstruct | OnCopyConstruct | OnMoveConstruct | OnCopyAssign | OnMoveAssign | OnDestroy

fun read_slot :: "slot \<Rightarrow> 'c SpecialMemberHooks \<Rightarrow> 'c std_function" where
  "read_slot OnConstruct h = on_construct h"
| "read_slot OnCopyConstruct h = on_copy_construct h"
| "read_slot OnMoveConstruct h = on_move_construct h"
| "read_slot OnCopyAssign h = on_copy_assign h"
| "read_slot OnMoveAssign h = on_move_assign h"
| "read_slot OnDestroy h = on_destroy h"

fun write_slot :: "slot \<Rightarrow> 'c std_function \<Rightarrow> 'c SpecialMemberHooks \<Rightarrow> 'c SpecialMemberHooks" where
  "write_slot OnConstruct f h = h\<lparr>on_construct := f\<rparr>"
| "write_slot OnCopyConstruct f h = h\<lparr>on_copy_construct := f\<rparr>"
| "write_slot OnMoveConstruct f h = h\<lparr>on_move_construct := f\<rparr>"
| "write_slot OnCopyAssign f h = h\<lparr>on_copy_assign := f\<rparr>"
| "write_slot OnMoveAssign f h = h\<lparr>on_move_assign := f\<rparr>"
| "write_slot OnDestroy f h = h\<lparr>on_destroy := f\<rparr>"

type_synonym ('c, 'u) hooks_world = "('c SpecialMemberHooks, slot, 'c, 'u) world"

type_synonym ('c, 'u) hooks_callables = "('c SpecialMemberHooks, slot, 'c, 'u) callables"

text \<open>
  An operation on storage that does not hold a live object (or a constructor run on
  storage that already holds one) has no defined behaviour in C++: the model yields
  \<open>None\<close> there. Every other outcome is \<open>Some\<close> of the world afterwards.
\<close>

definition invoke_if_set :: "('c, 'u) hooks_callables \<Rightarrow> addr \<Rightarrow> slot \<Rightarrow>
    ('c, 'u) hooks_world \<Rightarrow> ('c, 'u) hooks_world option" where
  \<comment> \<open>\<^verbatim>\<open>if (on_x) on_x();\<close> in a member function: the member is read from \<^verbatim>\<open>*this\<close>.\<close>
  "invoke_if_set run this s w =
     (case objects w this of
        None \<Rightarrow> None
      | Some h \<Rightarrow> Some (call_if_set run s (read_slot s h) w))"

definition store_member :: "slot \<Rightarrow> 'c std_function \<Rightarrow> addr \<Rightarrow>
    ('c, 'u) hooks_world \<Rightarrow> ('c, 'u) hooks_world option" where
  \<comment> \<open>\<^verbatim>\<open>a.on_x = f;\<close> from outside: the six members are public.\<close>
  "store_member s f a w =
     (case objects w a of
        None \<Rightarrow> None
      | Some h \<Rightarrow> Some (w\<lparr>objects := (objects w)(a \<mapsto> write_slot s f h)\<rparr>))"

definition copy_member :: "slot \<Rightarrow> addr \<Rightarrow> addr \<Rightarrow>
    ('c, 'u) hooks_world \<Rightarrow> ('c, 'u) hooks_world option" where
  \<comment> \<open>\<^verbatim>\<open>on_x = other.on_x;\<close>\<close>
  "copy_member s this other w =
     (case objects w other of
        None \<Rightarrow> None
      | Some ob \<Rightarrow> store_member s (read_slot s ob) this w)"

text \<open>
  The standard leaves a moved-from \<^verbatim>\<open>std::function\<close> in a valid state with an
  unspecified value. That value is the parameter \<open>mv\<close>, applied to what the moved-from
  object held; the common implementations leave it empty (\<open>\<lambda>_. None\<close>).
\<close>

definition move_member :: "('c std_function \<Rightarrow> 'c std_function) \<Rightarrow> slot \<Rightarrow> addr \<Rightarrow> addr \<Rightarrow>
    ('c, 'u) hooks_world \<Rightarrow> ('c, 'u) hooks_world option" where
  \<comment> \<open>\<^verbatim>\<open>on_x = std::move(other.on_x);\<close>\<close>
  "move_member mv s this other w =
     (case objects w other of
        None \<Rightarrow> None
      | Some ob \<Rightarrow>
          store_member s (mv (read_slot s ob)) other w \<bind> store_member s (read_slot s ob) this)"

definition moved_from :: "('c std_function \<Rightarrow> 'c std_function) \<Rightarrow>
    'c SpecialMemberHooks \<Rightarrow> 'c SpecialMemberHooks" where
  \<comment> \<open>An object each of whose six members has been moved from.\<close>
  "moved_from mv ob =
     \<lparr>on_construct = mv (on_construct ob), on_copy_construct = mv (on_copy_construct ob),
      on_move_construct = mv (on_move_construct ob), on_copy_assign = mv (on_copy_assign ob),
      on_move_assign = mv (on_move_assign ob), on_destroy = mv (on_destroy ob)\<rparr>"

definition default_construct :: "('c, 'u) hooks_callables \<Rightarrow> addr \<Rightarrow>
    ('c, 'u) hooks_world \<Rightarrow> ('c, 'u) hooks_world option" where
  "default_construct run this w =
     (if this \<in> dom (objects w) then None
      else
        let w1 = w\<lparr>objects := (objects w)(this \<mapsto>
                   \<lparr>on_construct = None, on_copy_construct = None, on_move_construct = None,
                    on_copy_assign = None, on_move_assign = None, on_destroy = None\<rparr>)\<rparr>;
            w2 = debug ''SpecialMemberHooks: default constructor called'' w1
        in invoke_if_set run this OnConstruct w2)"

definition copy_construct :: "('c, 'u) hooks_callables \<Rightarrow> addr \<Rightarrow> addr \<Rightarrow>
    ('c, 'u) hooks_world \<Rightarrow> ('c, 'u) hooks_world option" where
  "copy_construct run this other w =
     (if this \<in> dom (objects w) then None
      else case objects w other of
        None \<Rightarrow> None
      | Some ob \<Rightarrow>
          let w1 = w\<lparr>objects := (objects w)(this \<mapsto>
                     \<lparr>on_construct = on_construct ob, on_copy_construct = on_copy_construct ob,
                      on_move_construct = on_move_construct ob, on_copy_assign = on_copy_assign ob,
                      on_move_assign = on_move_assign ob, on_destroy = on_destroy ob\<rparr>)\<rparr>;
              w2 = debug ''SpecialMemberHooks: copy constructor called'' w1
          in invoke_if_set run this OnCopyConstruct w2)"

definition move_construct :: "('c std_function \<Rightarrow> 'c std_function) \<Rightarrow> ('c, 'u) hooks_callables \<Rightarrow>
    addr \<Rightarrow> addr \<Rightarrow> ('c, 'u) hooks_world \<Rightarrow> ('c, 'u) hooks_world option" where
  "move_construct mv run this other w =
     (if this \<in> dom (objects w) then None
      else case objects w other of
        None \<Rightarrow> None
      | Some ob \<Rightarrow>
          let w1 = w\<lparr>objects := (objects w)
                     (other \<mapsto> moved_from mv ob,
                      this \<mapsto>
                        \<lparr>on_construct = on_construct ob, on_copy_construct = on_copy_construct ob,
                         on_move_construct = on_move_construct ob, on_copy_assign = on_copy_assign ob,
                         on_move_assign = on_move_assign ob, on_destroy = on_destroy ob\<rparr>)\<rparr>;
              w2 = debug ''SpecialMemberHooks: move constructor called'' w1
          in invoke_if_set run this OnMoveConstruct w2)"

text \<open>The assignment operators return a reference: the address of the object referred to.\<close>

definition copy_assign :: "('c, 'u) hooks_callables \<Rightarrow> addr \<Rightarrow> addr \<Rightarrow>
    ('c, 'u) hooks_world \<Rightarrow> (addr \<times> ('c, 'u) hooks_world) option" where
  "copy_assign run this other w =
     (if this \<notin> dom (objects w) \<or> other \<notin> dom (objects w) then None
      else
        let w1 = debug ''SpecialMemberHooks: copy assignment called'' w
        in if this \<noteq> other then
             (copy_member OnConstruct this other w1
                \<bind> copy_member OnCopyConstruct this other
                \<bind> copy_member OnMoveConstruct this other
                \<bind> copy_member OnCopyAssign this other
                \<bind> copy_member OnMoveAssign this other
                \<bind> copy_member OnDestroy this other
                \<bind> invoke_if_set run this OnCopyAssign)
               \<bind> (\<lambda>w2. Some (this, w2))
           else Some (this, w1))"

definition move_assign :: "('c std_function \<Rightarrow> 'c std_function) \<Rightarrow> ('c, 'u) hooks_callables \<Rightarrow>
    addr \<Rightarrow> addr \<Rightarrow> ('c, 'u) hooks_world \<Rightarrow> (addr \<times> ('c, 'u) hooks_world) option" where
  "move_assign mv run this other w =
     (if this \<notin> dom (objects w) \<or> other \<notin> dom (objects w) then None
      else
        let w1 = debug ''SpecialMemberHooks: move assignment called'' w
        in if this \<noteq> other then
             (move_member mv OnConstruct this other w1
                \<bind> move_member mv OnCopyConstruct this other
                \<bind> move_member mv OnMoveConstruct this other
                \<bind> move_member mv OnCopyAssign this other
                \<bind> move_member mv OnMoveAssign this other
                \<bind> move_member mv OnDestroy this other
                \<bind> invoke_if_set run this OnMoveAssign)
               \<bind> (\<lambda>w2. Some (this, w2))
           else Some (this, w1))"

definition destroy :: "('c, 'u) hooks_callables \<Rightarrow> addr \<Rightarrow>
    ('c, 'u) hooks_world \<Rightarrow> ('c, 'u) hooks_world option" where
  \<comment> \<open>The body runs on the live object; its members are destroyed afterwards.\<close>
  "destroy run this w =
     (let w1 = debug ''SpecialMemberHooks: destructor called'' w
      in invoke_if_set run this OnDestroy w1
           \<bind> (\<lambda>w2. Some (w2\<lparr>objects := (objects w2)(this := None)\<rparr>)))"

subsection \<open>The six transitions of an instance\<close>

text \<open>
  The special member functions are not called by name: the compiler dispatches to them.
  A transition names the member function and its operands (\<^verbatim>\<open>this\<close> first).
\<close>

datatype transition =
  DefaultConstruct addr
| CopyConstruct addr addr
| MoveConstruct addr addr
| CopyAssign addr addr
| MoveAssign addr addr
| Destroy addr

fun step :: "('c std_function \<Rightarrow> 'c std_function) \<Rightarrow> ('c, 'u) hooks_callables \<Rightarrow>
    transition \<Rightarrow> ('c, 'u) hooks_world \<Rightarrow> ('c, 'u) hooks_world option" where
  "step mv run (DefaultConstruct this) w = default_construct run this w"
| "step mv run (CopyConstruct this other) w = copy_construct run this other w"
| "step mv run (MoveConstruct this other) w = move_construct mv run this other w"
| "step mv run (CopyAssign this other) w = map_option snd (copy_assign run this other w)"
| "step mv run (MoveAssign this other) w = map_option snd (move_assign mv run this other w)"
| "step mv run (Destroy this) w = destroy run this w"

fun subject :: "transition \<Rightarrow> addr" where
  "subject (DefaultConstruct this) = this"
| "subject (CopyConstruct this other) = this"
| "subject (MoveConstruct this other) = this"
| "subject (CopyAssign this other) = this"
| "subject (MoveAssign this other) = this"
| "subject (Destroy this) = this"

fun matching :: "transition \<Rightarrow> slot" where
  "matching (DefaultConstruct this) = OnConstruct"
| "matching (CopyConstruct this other) = OnCopyConstruct"
| "matching (MoveConstruct this other) = OnMoveConstruct"
| "matching (CopyAssign this other) = OnCopyAssign"
| "matching (MoveAssign this other) = OnMoveAssign"
| "matching (Destroy this) = OnDestroy"

fun self_assignment :: "transition \<Rightarrow> bool" where
  "self_assignment (CopyAssign this other) = (this = other)"
| "self_assignment (MoveAssign this other) = (this = other)"
| "self_assignment t = False"

definition instance_at :: "transition \<Rightarrow> ('c, 'u) hooks_world \<Rightarrow> ('c, 'u) hooks_world \<Rightarrow>
    'c SpecialMemberHooks option" where
  \<comment> \<open>The instance as it is when its hook is tested, given the worlds before and after the
      transition: a destructor tests the object it is about to reclaim, every other member
      function the object it has constructed or assigned to.\<close>
  "instance_at t w w' = (case t of Destroy this \<Rightarrow> objects w this | _ \<Rightarrow> objects w' (subject t))"

fun enabled :: "transition \<Rightarrow> ('c, 'u) hooks_world \<Rightarrow> bool" where
  \<comment> \<open>The transition is applied to storage in the right state: a constructor to storage
      that holds no object, every other member function to a live object; the other
      operand is a live object.\<close>
  "enabled (DefaultConstruct this) w = (this \<notin> dom (objects w))"
| "enabled (CopyConstruct this other) w = (this \<notin> dom (objects w) \<and> other \<in> dom (objects w))"
| "enabled (MoveConstruct this other) w = (this \<notin> dom (objects w) \<and> other \<in> dom (objects w))"
| "enabled (CopyAssign this other) w = (this \<in> dom (objects w) \<and> other \<in> dom (objects w))"
| "enabled (MoveAssign this other) w = (this \<in> dom (objects w) \<and> other \<in> dom (objects w))"
| "enabled (Destroy this) w = (this \<in> dom (objects w))"

section \<open>ObjectLifetimeHook\<close>

text \<open>
  The one member is the private \<^verbatim>\<open>on_destroy_\<close>; a field name cannot end in an
  underscore, hence \<open>on_destroy_member\<close>.
\<close>

record 'c ObjectLifetimeHook =
  on_destroy_member :: "'c std_function"

text \<open>The two variables through which ObjectLifetimeHook calls: a parameter and a member.\<close>

datatype lifetime_callee = OnCreateParameter | OnDestroyMember

type_synonym ('c, 'u) lifetime_world = "('c ObjectLifetimeHook, lifetime_callee, 'c, 'u) world"

type_synonym ('c, 'u) lifetime_callables = "('c ObjectLifetimeHook, lifetime_callee, 'c, 'u) callables"

definition ObjectLifetimeHook_construct :: "('c, 'u) lifetime_callables \<Rightarrow> addr \<Rightarrow>
    'c std_function \<Rightarrow> 'c std_function \<Rightarrow> ('c, 'u) lifetime_world \<Rightarrow> ('c, 'u) lifetime_world option" where
  "ObjectLifetimeHook_construct run this on_create on_destroy_arg w =
     (if this \<in> dom (objects w) then None
      else
        let w1 = w\<lparr>objects := (objects w)(this \<mapsto> \<lparr>on_destroy_member = on_destroy_arg\<rparr>)\<rparr>
        in Some (call_if_set run OnCreateParameter on_create w1))"

definition ObjectLifetimeHook_destroy :: "('c, 'u) lifetime_callables \<Rightarrow> addr \<Rightarrow>
    ('c, 'u) lifetime_world \<Rightarrow> ('c, 'u) lifetime_world option" where
  "ObjectLifetimeHook_destroy run this w =
     (case objects w this of
        None \<Rightarrow> None
      | Some h \<Rightarrow>
          let w1 = call_if_set run OnDestroyMember (on_destroy_member h) w
          in Some (w1\<lparr>objects := (objects w1)(this := None)\<rparr>))"

section \<open>Counting callables\<close>

text \<open>
  For concrete runs the callables are numbers and the captured state is a counter:
  calling the callable \<open>n\<close> adds \<open>n\<close> to the counter, so \<open>1\<close> increments it.
\<close>

definition add_to_counter :: "('o, 'k, nat, nat) callables" where
  "add_to_counter n w = user w + n"

definition start :: "('o, 'k, nat, nat) world" where
  "start = \<lparr>objects = Map.empty, events = [], user = 0\<rparr>"

definition no_hooks :: "nat SpecialMemberHooks" where
  "no_hooks = \<lparr>on_construct = None, on_copy_construct = None, on_move_construct = None,
               on_copy_assign = None, on_move_assign = None, on_destroy = None\<rparr>"

definition counting_hooks :: "nat SpecialMemberHooks" where
  \<comment> \<open>Every slot set, each to a different amount.\<close>
  "counting_hooks = \<lparr>on_construct = Some 1, on_copy_construct = Some 2, on_move_construct = Some 3,
                     on_copy_assign = Some 4, on_move_assign = Some 5, on_destroy = Some 6\<rparr>"

definition two_objects :: "(nat, nat) hooks_world" where
  \<comment> \<open>Object 0 has every slot set, object 3 has only \<^verbatim>\<open>on_copy_assign\<close> and
      \<^verbatim>\<open>on_move_assign\<close> set, to callables of its own.\<close>
  "two_objects = \<lparr>objects = [0 \<mapsto> counting_hooks,
                               3 \<mapsto> no_hooks\<lparr>on_copy_assign := Some 40, on_move_assign := Some 50\<rparr>],
                  events = [], user = 0\<rparr>"

definition move_assign_scenario :: "(nat std_function \<Rightarrow> nat std_function) \<Rightarrow>
    (nat, nat) hooks_world option" where
  \<comment> \<open>\<^verbatim>\<open>SpecialMemberHooks a; a.on_move_assign = [&]{ ++C; }; SpecialMemberHooks b;
      b = std::move(a);\<close> with \<open>a\<close> at address 0, \<open>b\<close> at address 3 and \<open>C\<close> zero at first.\<close>
  "move_assign_scenario mv =
     default_construct add_to_counter 0 start
       \<bind> store_member OnMoveAssign (Some 1) 0
       \<bind> default_construct add_to_counter 3
       \<bind> (\<lambda>w. map_option snd (move_assign mv add_to_counter 3 0 w))"

definition two_lifetime_hooks :: "(nat, nat) lifetime_world" where
  \<comment> \<open>Two live ObjectLifetimeHook objects: one with a destroy callback, one without.\<close>
  "two_lifetime_hooks = \<lparr>objects = [0 \<mapsto> \<lparr>on_destroy_member = Some 9\<rparr>,
                                     2 \<mapsto> \<lparr>on_destroy_member = None\<rparr>],
                        events = [], user = 0\<rparr>"

section \<open>Basic facts about the operations\<close>

lemma objects_debug [simp]: "objects (debug msg w) = objects w"
  by (simp add: debug_def)

lemma events_debug [simp]: "events (debug msg w) = events w @ [Debug msg]"
  by (simp add: debug_def)

lemma user_debug [simp]: "user (debug msg w) = user w"
  by (simp add: debug_def)

lemma objects_call_if_set [simp]: "objects (call_if_set run k f w) = objects w"
  by (simp add: call_if_set_def call_def split: option.split)

lemma events_call_if_set [simp]:
  "events (call_if_set run k f w) = events w @ (case f of None \<Rightarrow> [] | Some c \<Rightarrow> [Invoke k c])"
  by (simp add: call_if_set_def call_def split: option.split)

lemma user_call_if_set [simp]:
  "user (call_if_set run k f w) = (case f of None \<Rightarrow> user w | Some c \<Rightarrow> run c w)"
  by (simp add: call_if_set_def call_def split: option.split)

lemma store_member_alive:
  "objects w a = Some h \<Longrightarrow>
     store_member s f a w = Some (w\<lparr>objects := (objects w)(a \<mapsto> write_slot s f h)\<rparr>)"
  by (simp add: store_member_def)

lemma copy_member_alive:
  "objects w this = Some t \<Longrightarrow> objects w other = Some ob \<Longrightarrow>
     copy_member s this other w =
       Some (w\<lparr>objects := (objects w)(this \<mapsto> write_slot s (read_slot s ob) t)\<rparr>)"
  by (simp add: copy_member_def store_member_def)

lemma move_member_alive:
  "this \<noteq> other \<Longrightarrow> objects w this = Some t \<Longrightarrow> objects w other = Some ob \<Longrightarrow>
     move_member mv s this other w =
       Some (w\<lparr>objects := (objects w)(other \<mapsto> write_slot s (mv (read_slot s ob)) ob,
                                       this \<mapsto> write_slot s (read_slot s ob) t)\<rparr>)"
  by (simp add: move_member_def store_member_def)

lemma all_six_overwritten:
  "t\<lparr>on_construct := on_construct ob, on_copy_construct := on_copy_construct ob,
      on_move_construct := on_move_construct ob, on_copy_assign := on_copy_assign ob,
      on_move_assign := on_move_assign ob, on_destroy := on_destroy ob\<rparr>
   = (ob :: 'c SpecialMemberHooks)"
  by (cases t, cases ob) simp

lemma all_six_initialised:
  "\<lparr>on_construct = on_construct ob, on_copy_construct = on_copy_construct ob,
    on_move_construct = on_move_construct ob, on_copy_assign = on_copy_assign ob,
    on_move_assign = on_move_assign ob, on_destroy = on_destroy ob\<rparr>
   = (ob :: 'c SpecialMemberHooks)"
  by (cases ob) simp

lemma all_six_moved_from:
  "ob\<lparr>on_construct := mv (on_construct ob), on_copy_construct := mv (on_copy_construct ob),
      on_move_construct := mv (on_move_construct ob), on_copy_assign := mv (on_copy_assign ob),
      on_move_assign := mv (on_move_assign ob), on_destroy := mv (on_destroy ob)\<rparr>
   = moved_from mv (ob :: 'c SpecialMemberHooks)"
  by (cases ob) (simp add: moved_from_def)

subsection \<open>What each member function returns\<close>

lemma default_construct_result:
  assumes "objects w this = None"
  shows "default_construct run this w =
           Some (debug ''SpecialMemberHooks: default constructor called''
                  (w\<lparr>objects := (objects w)(this \<mapsto>
                       \<lparr>on_construct = None, on_copy_construct = None, on_move_construct = None,
                        on_copy_assign = None, on_move_assign = None, on_destroy = None\<rparr>)\<rparr>))"
  using assms by (simp add: default_construct_def invoke_if_set_def call_if_set_def domIff)

lemma copy_construct_result:
  assumes "objects w this = None" "objects w other = Some S"
  shows "copy_construct run this other w =
           Some (call_if_set run OnCopyConstruct (on_copy_construct S)
                  (debug ''SpecialMemberHooks: copy constructor called''
                    (w\<lparr>objects := (objects w)(this \<mapsto> S)\<rparr>)))"
  using assms by (simp add: copy_construct_def invoke_if_set_def all_six_initialised domIff)

lemma move_construct_result:
  assumes "objects w this = None" "objects w other = Some S"
  shows "move_construct mv run this other w =
           Some (call_if_set run OnMoveConstruct (on_move_construct S)
                  (debug ''SpecialMemberHooks: move constructor called''
                    (w\<lparr>objects := (objects w)(other \<mapsto> moved_from mv S, this \<mapsto> S)\<rparr>)))"
  using assms by (simp add: move_construct_def invoke_if_set_def all_six_initialised domIff)

lemma copy_assign_result:
  assumes "this \<noteq> other" "objects w this = Some T" "objects w other = Some S"
  shows "copy_assign run this other w =
           Some (this, call_if_set run OnCopyAssign (on_copy_assign S)
                  ((debug ''SpecialMemberHooks: copy assignment called'' w)
                     \<lparr>objects := (objects w)(this \<mapsto> S)\<rparr>))"
  using assms
  by (simp add: copy_assign_def domIff invoke_if_set_def copy_member_alive all_six_overwritten)

lemma move_assign_result:
  assumes "this \<noteq> other" "objects w this = Some T" "objects w other = Some S"
  shows "move_assign mv run this other w =
           Some (this, call_if_set run OnMoveAssign (on_move_assign S)
                  ((debug ''SpecialMemberHooks: move assignment called'' w)
                     \<lparr>objects := (objects w)(other \<mapsto> moved_from mv S, this \<mapsto> S)\<rparr>))"
  using assms
  by (simp add: move_assign_def domIff invoke_if_set_def move_member_alive all_six_overwritten
      all_six_moved_from)

lemma copy_assign_self_result:
  assumes "objects w this = Some h"
  shows "copy_assign run this this w =
           Some (this, debug ''SpecialMemberHooks: copy assignment called'' w)"
  using assms by (simp add: copy_assign_def domIff)

lemma move_assign_self_result:
  assumes "objects w this = Some h"
  shows "move_assign mv run this this w =
           Some (this, debug ''SpecialMemberHooks: move assignment called'' w)"
  using assms by (simp add: move_assign_def domIff)

lemma destroy_result:
  assumes "objects w this = Some h"
  shows "destroy run this w =
           Some ((call_if_set run OnDestroy (on_destroy h)
                   (debug ''SpecialMemberHooks: destructor called'' w))
                 \<lparr>objects := (objects w)(this := None)\<rparr>)"
  using assms by (simp add: destroy_def invoke_if_set_def)


lemma default_construct_SomeD:
  "default_construct run this w = Some w' \<Longrightarrow> objects w this = None"
  by (auto simp: default_construct_def split: if_splits)

lemma copy_construct_SomeD:
  "copy_construct run this other w = Some w' \<Longrightarrow>
     objects w this = None \<and> (\<exists>S. objects w other = Some S)"
  by (auto simp: copy_construct_def split: if_splits option.splits)

lemma move_construct_SomeD:
  "move_construct mv run this other w = Some w' \<Longrightarrow>
     objects w this = None \<and> (\<exists>S. objects w other = Some S)"
  by (auto simp: move_construct_def split: if_splits option.splits)

lemma copy_assign_SomeD:
  "copy_assign run this other w = Some r \<Longrightarrow>
     (\<exists>T. objects w this = Some T) \<and> (\<exists>S. objects w other = Some S)"
  by (cases "this \<in> dom (objects w) \<and> other \<in> dom (objects w)") (auto simp: copy_assign_def)

lemma move_assign_SomeD:
  "move_assign mv run this other w = Some r \<Longrightarrow>
     (\<exists>T. objects w this = Some T) \<and> (\<exists>S. objects w other = Some S)"
  by (cases "this \<in> dom (objects w) \<and> other \<in> dom (objects w)") (auto simp: move_assign_def)

lemma destroy_SomeD:
  "destroy run this w = Some w' \<Longrightarrow> \<exists>h. objects w this = Some h"
  by (cases "objects w this") (auto simp: destroy_def invoke_if_set_def)

lemma ObjectLifetimeHook_construct_result:
  assumes "objects w this = None"
  shows "ObjectLifetimeHook_construct run this on_create on_destroy_arg w =
           Some (call_if_set run OnCreateParameter on_create
                  (w\<lparr>objects := (objects w)(this \<mapsto> \<lparr>on_destroy_member = on_destroy_arg\<rparr>)\<rparr>))"
  using assms by (simp add: ObjectLifetimeHook_construct_def domIff)

lemma ObjectLifetimeHook_destroy_result:
  assumes "objects w this = Some h"
  shows "ObjectLifetimeHook_destroy run this w =
           Some ((call_if_set run OnDestroyMember (on_destroy_member h) w)
                 \<lparr>objects := (objects w)(this := None)\<rparr>)"
  using assms by (simp add: ObjectLifetimeHook_destroy_def)

lemma move_assign_scenario_result:
  "map_option user (move_assign_scenario mv) = Some 1"
proof -
  let ?a = "no_hooks\<lparr>on_move_assign := Some 1\<rparr>"
  let ?w1 = "debug ''SpecialMemberHooks: default constructor called''
               ((start :: (nat, nat) hooks_world)\<lparr>objects := [0 \<mapsto> no_hooks]\<rparr>)"
  let ?w2 = "?w1\<lparr>objects := (objects ?w1)(0 \<mapsto> ?a)\<rparr>"
  let ?w3 = "debug ''SpecialMemberHooks: default constructor called''
               (?w2\<lparr>objects := (objects ?w2)(3 \<mapsto> no_hooks)\<rparr>)"
  have 1: "default_construct add_to_counter 0 start = Some ?w1"
    by (simp add: default_construct_result start_def no_hooks_def)
  have 2: "store_member OnMoveAssign (Some 1) 0 ?w1 = Some ?w2"
    by (simp add: store_member_alive)
  have 3: "default_construct add_to_counter 3 ?w2 = Some ?w3"
    by (simp add: default_construct_result start_def no_hooks_def)
  have 4: "map_option (user \<circ> snd) (move_assign mv add_to_counter 3 0 ?w3) = Some 1"
    by (simp add: move_assign_result [of 3 0 _ no_hooks ?a] add_to_counter_def no_hooks_def start_def)
  show ?thesis
    by (simp only: move_assign_scenario_def 1 2 3 4 Option.bind.simps option.map_comp)
qed

lemma two_objects_alive:
  "objects two_objects 0 = Some counting_hooks"
  "objects two_objects 3 = Some (no_hooks\<lparr>on_copy_assign := Some 40, on_move_assign := Some 50\<rparr>)"
  "objects two_objects 2 = None"
  by (simp_all add: two_objects_def)


lemma step_enabled_iff: "step mv run t w \<noteq> None \<longleftrightarrow> enabled t w"
proof (cases t)
  case (DefaultConstruct this)
  then show ?thesis
    using default_construct_SomeD [of run this w] default_construct_result [of w this run]
    by (auto simp: domIff)
next
  case (CopyConstruct this other)
  then show ?thesis
    using copy_construct_SomeD [of run this other w] copy_construct_result [of w this other _ run]
    by (auto simp: domIff)
next
  case (MoveConstruct this other)
  then show ?thesis
    using move_construct_SomeD [of mv run this other w]
      move_construct_result [of w this other _ mv run]
    by (auto simp: domIff)
next
  case (CopyAssign this other)
  then show ?thesis
    using copy_assign_SomeD [of run this other w] copy_assign_result [of this other w _ _ run]
      copy_assign_self_result [of w this _ run]
    by (cases "this = other") (auto simp: domIff)
next
  case (MoveAssign this other)
  then show ?thesis
    using move_assign_SomeD [of mv run this other w] move_assign_result [of this other w _ _ mv run]
      move_assign_self_result [of w this _ mv run]
    by (cases "this = other") (auto simp: domIff)
next
  case (Destroy this)
  then show ?thesis
    using destroy_SomeD [of run this w] destroy_result [of w this _ run]
    by (auto simp: domIff)
qed

section \<open>Default construction\<close>

text \<open>
  C9. A default-constructed SpecialMemberHooks has all six slots empty when its
  constructor returns, and the constructor calls no callback: the only event is its line
  to the logger and the captured state is untouched, whatever the callables are. The
  test of \<^verbatim>\<open>on_construct\<close> in the constructor never succeeds.
\<close>

theorem default_construct_all_empty:
  assumes "objects w this = None"
  shows "\<exists>w'. default_construct run this w = Some w'
           \<and> objects w' this = Some \<lparr>on_construct = None, on_copy_construct = None,
                 on_move_construct = None, on_copy_assign = None, on_move_assign = None,
                 on_destroy = None\<rparr>
           \<and> events w' = events w @ [Debug ''SpecialMemberHooks: default constructor called'']
           \<and> user w' = user w"
  using assms by (simp add: default_construct_result)

theorem default_construct_all_empty_witness:
  "objects (start :: (nat, nat) hooks_world) 0 = None
   \<and> (\<exists>w'. default_construct add_to_counter 0 start = Some w'
           \<and> objects w' 0 = Some no_hooks
           \<and> events w' = [Debug ''SpecialMemberHooks: default constructor called'']
           \<and> user w' = 0)"
  using default_construct_all_empty [of start 0 add_to_counter]
  by (simp add: start_def no_hooks_def)

section \<open>Copy and move construction\<close>

text \<open>
  C2. Copy construction from a source whose six slots are \<open>S\<close> gives a new instance
  whose six slots are \<open>S\<close> and leaves the source with \<open>S\<close>. After the line to the
  logger, \<^verbatim>\<open>on_copy_construct\<close> of \<open>S\<close> is called if it is set, once, and the callable
  finds the new instance already holding \<open>S\<close>.
\<close>

theorem copy_construct_duplicates:
  assumes "objects w this = None" and "objects w other = Some S"
  shows "\<exists>w'. copy_construct run this other w = Some w'
           \<and> objects w' this = Some S
           \<and> objects w' other = Some S
           \<and> events w' = events w @ Debug ''SpecialMemberHooks: copy constructor called'' #
               (case on_copy_construct S of None \<Rightarrow> [] | Some c \<Rightarrow> [Invoke OnCopyConstruct c])
           \<and> user w' =
               (case on_copy_construct S of
                  None \<Rightarrow> user w
                | Some c \<Rightarrow> run c (w\<lparr>objects := (objects w)(this \<mapsto> S),
                       events := events w @ [Debug ''SpecialMemberHooks: copy constructor called'']\<rparr>))"
proof -
  from assms have "this \<noteq> other" by auto
  with assms show ?thesis
    by (simp add: copy_construct_result debug_def cong: option.case_cong)
qed

theorem copy_construct_duplicates_witness:
  "objects two_objects 2 = None \<and> objects two_objects 0 = Some counting_hooks
   \<and> (\<exists>w'. copy_construct add_to_counter 2 0 two_objects = Some w'
          \<and> objects w' 2 = Some counting_hooks
          \<and> objects w' 0 = Some counting_hooks
          \<and> events w' = [Debug ''SpecialMemberHooks: copy constructor called'',
                           Invoke OnCopyConstruct 2]
          \<and> user w' = 2)"
  using copy_construct_duplicates [OF two_objects_alive(3) two_objects_alive(1), of add_to_counter]
  by (auto simp: two_objects_alive two_objects_def counting_hooks_def add_to_counter_def)

text \<open>
  C3. Move construction from a source whose six slots are \<open>S\<close> gives a new instance
  whose six slots are \<open>S\<close>. After the line to the logger, \<^verbatim>\<open>on_move_construct\<close> of
  \<open>S\<close> is called if it is set, once, and the callable finds the new instance already
  holding \<open>S\<close>. The source stays a live object, holding whatever moving leaves behind,
  and can be destroyed afterwards, which does not disturb the new instance.
\<close>

theorem move_construct_transfers:
  assumes "objects w this = None" and "objects w other = Some S"
  shows "\<exists>w'. move_construct mv run this other w = Some w'
           \<and> objects w' this = Some S
           \<and> events w' = events w @ Debug ''SpecialMemberHooks: move constructor called'' #
               (case on_move_construct S of None \<Rightarrow> [] | Some c \<Rightarrow> [Invoke OnMoveConstruct c])
           \<and> user w' =
               (case on_move_construct S of
                  None \<Rightarrow> user w
                | Some c \<Rightarrow> run c (w\<lparr>objects := (objects w)(other \<mapsto> moved_from mv S, this \<mapsto> S),
                       events := events w @ [Debug ''SpecialMemberHooks: move constructor called'']\<rparr>))
           \<and> objects w' other = Some (moved_from mv S)
           \<and> (\<exists>w''. destroy run other w' = Some w'' \<and> objects w'' other = None
                 \<and> objects w'' this = Some S)"
proof -
  from assms have "this \<noteq> other" by auto
  with assms show ?thesis
    by (simp add: move_construct_result destroy_result debug_def cong: option.case_cong)
qed

theorem move_construct_transfers_witness:
  "objects two_objects 2 = None \<and> objects two_objects 0 = Some counting_hooks
   \<and> (\<exists>w'. move_construct (\<lambda>_. None) add_to_counter 2 0 two_objects = Some w'
          \<and> objects w' 2 = Some counting_hooks
          \<and> events w' = [Debug ''SpecialMemberHooks: move constructor called'',
                           Invoke OnMoveConstruct 3]
          \<and> user w' = 3
          \<and> objects w' 0 = Some no_hooks
          \<and> (\<exists>w''. destroy add_to_counter 0 w' = Some w'' \<and> objects w'' 0 = None
                \<and> objects w'' 2 = Some counting_hooks))"
  using move_construct_transfers [OF two_objects_alive(3) two_objects_alive(1),
      of "\<lambda>_. None" add_to_counter]
  by (auto simp: two_objects_alive two_objects_def counting_hooks_def add_to_counter_def
      moved_from_def no_hooks_def)

section \<open>One hook per transition\<close>

text \<open>
  C1. Every transition of an instance (default construction, copy
  construction, move construction, copy assignment, move assignment, destruction) that
  is applied to storage in the right state runs to its end, and its events are its line
  to the logger followed, unless it is a self-assignment, by exactly one call if the
  slot matching the transition is set when it is tested, and by no call if that slot is
  empty. The call is through the matching slot, of the callable that slot holds; no
  other slot is called through. A self-assignment calls nothing, also when the matching
  slot is set.
\<close>

theorem one_hook_per_transition:
  assumes "enabled t w"
  shows "\<exists>w' msg h. step mv run t w = Some w'
           \<and> instance_at t w w' = Some h
           \<and> events w' = events w @ Debug msg #
               (if self_assignment t then []
                else case read_slot (matching t) h of
                       None \<Rightarrow> []
                     | Some c \<Rightarrow> [Invoke (matching t) c])"
proof (cases t)
  case (DefaultConstruct this)
  with assms have "objects w this = None" by (simp add: domIff)
  then show ?thesis
    unfolding DefaultConstruct by (simp add: default_construct_result instance_at_def)
next
  case (CopyConstruct this other)
  with assms obtain S where "objects w this = None" "objects w other = Some S"
    by (auto simp: domIff)
  then show ?thesis
    unfolding CopyConstruct
    by (simp add: copy_construct_result instance_at_def cong: option.case_cong)
next
  case (MoveConstruct this other)
  with assms obtain S where "objects w this = None" "objects w other = Some S"
    by (auto simp: domIff)
  then show ?thesis
    unfolding MoveConstruct
    by (simp add: move_construct_result instance_at_def cong: option.case_cong)
next
  case (CopyAssign this other)
  with assms obtain T S where alive: "objects w this = Some T" "objects w other = Some S"
    by (auto simp: domIff)
  show ?thesis
  proof (cases "this = other")
    case True
    with alive show ?thesis
      unfolding CopyAssign by (simp add: copy_assign_self_result instance_at_def)
  next
    case False
    with alive show ?thesis
      unfolding CopyAssign
      by (simp add: copy_assign_result instance_at_def cong: option.case_cong)
  qed
next
  case (MoveAssign this other)
  with assms obtain T S where alive: "objects w this = Some T" "objects w other = Some S"
    by (auto simp: domIff)
  show ?thesis
  proof (cases "this = other")
    case True
    with alive show ?thesis
      unfolding MoveAssign by (simp add: move_assign_self_result instance_at_def)
  next
    case False
    with alive show ?thesis
      unfolding MoveAssign
      by (simp add: move_assign_result instance_at_def cong: option.case_cong)
  qed
next
  case (Destroy this)
  with assms obtain h where "objects w this = Some h" by (auto simp: domIff)
  then show ?thesis
    unfolding Destroy by (simp add: destroy_result instance_at_def cong: option.case_cong)
qed

theorem one_hook_per_transition_witness:
  "enabled (DefaultConstruct 2) two_objects
   \<and> (\<exists>w' msg. step (\<lambda>_. None) add_to_counter (DefaultConstruct 2) two_objects = Some w'
          \<and> events w' = [Debug msg])
   \<and> enabled (CopyConstruct 2 0) two_objects
   \<and> (\<exists>w' msg. step (\<lambda>_. None) add_to_counter (CopyConstruct 2 0) two_objects = Some w'
          \<and> events w' = [Debug msg, Invoke OnCopyConstruct 2])
   \<and> enabled (MoveConstruct 2 0) two_objects
   \<and> (\<exists>w' msg. step (\<lambda>_. None) add_to_counter (MoveConstruct 2 0) two_objects = Some w'
          \<and> events w' = [Debug msg, Invoke OnMoveConstruct 3])
   \<and> enabled (CopyAssign 3 0) two_objects
   \<and> (\<exists>w' msg. step (\<lambda>_. None) add_to_counter (CopyAssign 3 0) two_objects = Some w'
          \<and> events w' = [Debug msg, Invoke OnCopyAssign 4])
   \<and> enabled (MoveAssign 3 0) two_objects
   \<and> (\<exists>w' msg. step (\<lambda>_. None) add_to_counter (MoveAssign 3 0) two_objects = Some w'
          \<and> events w' = [Debug msg, Invoke OnMoveAssign 5])
   \<and> enabled (Destroy 0) two_objects
   \<and> (\<exists>w' msg. step (\<lambda>_. None) add_to_counter (Destroy 0) two_objects = Some w'
          \<and> events w' = [Debug msg, Invoke OnDestroy 6])
   \<and> enabled (CopyAssign 0 0) two_objects
   \<and> (\<exists>w' msg. step (\<lambda>_. None) add_to_counter (CopyAssign 0 0) two_objects = Some w'
          \<and> events w' = [Debug msg])"
proof -
  have en: "enabled (DefaultConstruct 2) two_objects" "enabled (CopyConstruct 2 0) two_objects"
    "enabled (MoveConstruct 2 0) two_objects" "enabled (CopyAssign 3 0) two_objects"
    "enabled (MoveAssign 3 0) two_objects" "enabled (Destroy 0) two_objects"
    "enabled (CopyAssign 0 0) two_objects"
    by (simp_all add: two_objects_alive domIff)
  note facts = two_objects_alive instance_at_def default_construct_result copy_construct_result
    move_construct_result copy_assign_result copy_assign_self_result move_assign_result
    destroy_result
  have "\<exists>w' msg. step (\<lambda>_. None) add_to_counter (DefaultConstruct 2) two_objects = Some w'
          \<and> events w' = [Debug msg]"
    using one_hook_per_transition [OF en(1), of "\<lambda>_. None" add_to_counter]
    by (auto simp: facts) (simp add: two_objects_def)
  moreover
  have "\<exists>w' msg. step (\<lambda>_. None) add_to_counter (CopyConstruct 2 0) two_objects = Some w'
          \<and> events w' = [Debug msg, Invoke OnCopyConstruct 2]"
    using one_hook_per_transition [OF en(2), of "\<lambda>_. None" add_to_counter]
    by (auto simp: facts) (simp add: two_objects_def counting_hooks_def)
  moreover
  have "\<exists>w' msg. step (\<lambda>_. None) add_to_counter (MoveConstruct 2 0) two_objects = Some w'
          \<and> events w' = [Debug msg, Invoke OnMoveConstruct 3]"
    using one_hook_per_transition [OF en(3), of "\<lambda>_. None" add_to_counter]
    by (auto simp: facts) (simp add: two_objects_def counting_hooks_def)
  moreover
  have "\<exists>w' msg. step (\<lambda>_. None) add_to_counter (CopyAssign 3 0) two_objects = Some w'
          \<and> events w' = [Debug msg, Invoke OnCopyAssign 4]"
    using one_hook_per_transition [OF en(4), of "\<lambda>_. None" add_to_counter]
    by (auto simp: facts) (simp add: two_objects_def counting_hooks_def)
  moreover
  have "\<exists>w' msg. step (\<lambda>_. None) add_to_counter (MoveAssign 3 0) two_objects = Some w'
          \<and> events w' = [Debug msg, Invoke OnMoveAssign 5]"
    using one_hook_per_transition [OF en(5), of "\<lambda>_. None" add_to_counter]
    by (auto simp: facts) (simp add: two_objects_def counting_hooks_def)
  moreover
  have "\<exists>w' msg. step (\<lambda>_. None) add_to_counter (Destroy 0) two_objects = Some w'
          \<and> events w' = [Debug msg, Invoke OnDestroy 6]"
    using one_hook_per_transition [OF en(6), of "\<lambda>_. None" add_to_counter]
    by (auto simp: facts) (simp add: two_objects_def counting_hooks_def)
  moreover
  have "\<exists>w' msg. step (\<lambda>_. None) add_to_counter (CopyAssign 0 0) two_objects = Some w'
          \<and> events w' = [Debug msg]"
    using one_hook_per_transition [OF en(7), of "\<lambda>_. None" add_to_counter]
    by (auto simp: facts) (simp add: two_objects_def)
  ultimately show ?thesis using en by blast
qed

text \<open>
  The exception is needed: assigning object 0 of \<open>two_objects\<close> to itself by copy, with
  its \<^verbatim>\<open>on_copy_assign\<close> set, adds the line to the logger and nothing else. The
  guard \<^verbatim>\<open>this != &other\<close> skips the call.
\<close>

theorem self_assignment_skips_set_hook:
  "objects two_objects 0 = Some counting_hooks
   \<and> on_copy_assign counting_hooks = Some 4
   \<and> copy_assign add_to_counter 0 0 two_objects =
       Some (0, two_objects\<lparr>events := [Debug ''SpecialMemberHooks: copy assignment called'']\<rparr>)"
  by (simp add: copy_assign_self_result [OF two_objects_alive(1)] two_objects_alive debug_def)
     (simp add: two_objects_def counting_hooks_def)

section \<open>Assignment\<close>

text \<open>
  C5. Copy assignment from a source whose six slots are \<open>S\<close> into a different
  instance overwrites the six slots of the target with \<open>S\<close>, whatever the target held,
  and changes no other object (the source still holds \<open>S\<close>). After the line to the
  logger and the six assignments, \<^verbatim>\<open>on_copy_assign\<close> of \<open>S\<close> (the value just copied,
  not the one the target held before) is called if it is set, once, and the callable
  finds the target already holding \<open>S\<close>. The operator returns the target.
\<close>

theorem copy_assign_duplicates:
  assumes "this \<noteq> other" and "objects w this = Some T" and "objects w other = Some S"
  shows "\<exists>w'. copy_assign run this other w = Some (this, w')
           \<and> objects w' = (objects w)(this \<mapsto> S)
           \<and> events w' = events w @ Debug ''SpecialMemberHooks: copy assignment called'' #
               (case on_copy_assign S of None \<Rightarrow> [] | Some c \<Rightarrow> [Invoke OnCopyAssign c])
           \<and> user w' =
               (case on_copy_assign S of
                  None \<Rightarrow> user w
                | Some c \<Rightarrow> run c (w\<lparr>events := events w @ [Debug ''SpecialMemberHooks: copy assignment called''],
                       objects := (objects w)(this \<mapsto> S)\<rparr>))"
  using assms by (simp add: copy_assign_result debug_def cong: option.case_cong)

theorem copy_assign_duplicates_witness:
  "(3::nat) \<noteq> 0
   \<and> objects two_objects 3 = Some (no_hooks\<lparr>on_copy_assign := Some 40, on_move_assign := Some 50\<rparr>)
   \<and> objects two_objects 0 = Some counting_hooks
   \<and> (\<exists>w'. copy_assign add_to_counter 3 0 two_objects = Some (3, w')
          \<and> objects w' 3 = Some counting_hooks
          \<and> objects w' 0 = Some counting_hooks
          \<and> events w' = [Debug ''SpecialMemberHooks: copy assignment called'',
                           Invoke OnCopyAssign 4]
          \<and> user w' = 4)"
  using copy_assign_duplicates [OF _ two_objects_alive(2) two_objects_alive(1), of add_to_counter]
  by (auto simp: two_objects_alive two_objects_def counting_hooks_def add_to_counter_def)

text \<open>
  C6. Move assignment from a source whose six slots are \<open>S\<close> into a different
  instance leaves the target holding \<open>S\<close> (and the source holding whatever moving
  leaves behind). After the line to the logger and the six assignments,
  \<^verbatim>\<open>on_move_assign\<close> of \<open>S\<close> is called if it is set, once, and the callable finds the
  target already holding \<open>S\<close>. In particular: when \<open>a\<close> is default-constructed and
  its \<^verbatim>\<open>on_move_assign\<close> set to increment a counter, \<open>b\<close> is default-constructed and
  \<open>b\<close> is move-assigned from \<open>a\<close>, the counter, zero at first, is 1 afterwards,
  whatever moving leaves behind.
\<close>

theorem move_assign_transfers:
  assumes "this \<noteq> other" and "objects w this = Some T" and "objects w other = Some S"
  shows "(\<exists>w'. move_assign mv run this other w = Some (this, w')
           \<and> objects w' this = Some S
           \<and> objects w' = (objects w)(other \<mapsto> moved_from mv S, this \<mapsto> S)
           \<and> events w' = events w @ Debug ''SpecialMemberHooks: move assignment called'' #
               (case on_move_assign S of None \<Rightarrow> [] | Some c \<Rightarrow> [Invoke OnMoveAssign c])
           \<and> user w' =
               (case on_move_assign S of
                  None \<Rightarrow> user w
                | Some c \<Rightarrow> run c (w\<lparr>events := events w @ [Debug ''SpecialMemberHooks: move assignment called''],
                       objects := (objects w)(other \<mapsto> moved_from mv S, this \<mapsto> S)\<rparr>)))
         \<and> map_option user (move_assign_scenario mv) = Some 1"
  using assms
  by (simp add: move_assign_result move_assign_scenario_result debug_def cong: option.case_cong)

theorem move_assign_transfers_witness:
  "(3::nat) \<noteq> 0
   \<and> objects two_objects 3 = Some (no_hooks\<lparr>on_copy_assign := Some 40, on_move_assign := Some 50\<rparr>)
   \<and> objects two_objects 0 = Some counting_hooks
   \<and> (\<exists>w'. move_assign (\<lambda>_. None) add_to_counter 3 0 two_objects = Some (3, w')
          \<and> objects w' 3 = Some counting_hooks
          \<and> objects w' 0 = Some no_hooks
          \<and> events w' = [Debug ''SpecialMemberHooks: move assignment called'',
                           Invoke OnMoveAssign 5]
          \<and> user w' = 5)"
  using move_assign_transfers [OF _ two_objects_alive(2) two_objects_alive(1),
      of "\<lambda>_. None" add_to_counter]
  by (auto simp: two_objects_alive two_objects_def counting_hooks_def add_to_counter_def
      moved_from_def no_hooks_def)

text \<open>
  C4. Assigning an instance to itself, by copy or by move, leaves every object as it
  was (so the six slots are unchanged), calls nothing (also when the assign slot is set)
  and leaves the captured state as it was. Nothing follows the guard: the one event of
  the assignment is the line to the logger, which is emitted before the guard is tested.
  The operator returns the instance.
\<close>

theorem self_assignment_no_op:
  assumes "objects w this = Some h"
  shows "(\<exists>w'. copy_assign run this this w = Some (this, w')
            \<and> objects w' = objects w \<and> user w' = user w
            \<and> events w' = events w @ [Debug ''SpecialMemberHooks: copy assignment called''])
         \<and> (\<exists>w'. move_assign mv run this this w = Some (this, w')
            \<and> objects w' = objects w \<and> user w' = user w
            \<and> events w' = events w @ [Debug ''SpecialMemberHooks: move assignment called''])"
  using assms by (simp add: copy_assign_self_result move_assign_self_result)

theorem self_assignment_no_op_witness:
  "objects two_objects 0 = Some counting_hooks
   \<and> (\<exists>w'. copy_assign add_to_counter 0 0 two_objects = Some (0, w')
          \<and> objects w' 0 = Some counting_hooks \<and> user w' = 0
          \<and> events w' = [Debug ''SpecialMemberHooks: copy assignment called''])
   \<and> (\<exists>w'. move_assign (\<lambda>_. None) add_to_counter 0 0 two_objects = Some (0, w')
          \<and> objects w' 0 = Some counting_hooks \<and> user w' = 0
          \<and> events w' = [Debug ''SpecialMemberHooks: move assignment called''])"
  using self_assignment_no_op [OF two_objects_alive(1), of add_to_counter "\<lambda>_. None"]
  by (auto simp: two_objects_alive two_objects_def)

text \<open>
  C10. Both assignment operators return a reference to the instance assigned to,
  whether or not the source is that same instance.
\<close>

theorem assignment_returns_this:
  assumes "objects w this = Some T" and "objects w other = Some S"
  shows "map_option fst (copy_assign run this other w) = Some this
         \<and> map_option fst (move_assign mv run this other w) = Some this"
proof (cases "this = other")
  case True
  with assms show ?thesis
    by (simp add: copy_assign_self_result move_assign_self_result)
next
  case False
  with assms show ?thesis
    by (simp add: copy_assign_result move_assign_result)
qed

theorem assignment_returns_this_witness:
  "objects two_objects 3 = Some (no_hooks\<lparr>on_copy_assign := Some 40, on_move_assign := Some 50\<rparr>)
   \<and> objects two_objects 0 = Some counting_hooks
   \<and> map_option fst (copy_assign add_to_counter 3 0 two_objects) = Some 3
   \<and> map_option fst (move_assign (\<lambda>_. None) add_to_counter 3 0 two_objects) = Some 3
   \<and> map_option fst (copy_assign add_to_counter 3 3 two_objects) = Some 3
   \<and> map_option fst (move_assign (\<lambda>_. None) add_to_counter 3 3 two_objects) = Some 3"
  using assignment_returns_this [OF two_objects_alive(2) two_objects_alive(1),
      of add_to_counter "\<lambda>_. None"]
    assignment_returns_this [OF two_objects_alive(2) two_objects_alive(2),
      of add_to_counter "\<lambda>_. None"]
  by (simp add: two_objects_alive)

section \<open>The callbacks of ObjectLifetimeHook\<close>

text \<open>
  C8. The constructor of ObjectLifetimeHook calls the create callback if it is set,
  once, before it returns, with the new object already in place, and calls nothing if
  the create callback is empty. The new object stores the destroy callback only: the
  create callback is not retained, and destroying the object calls through the stored
  destroy callback alone.
\<close>

theorem on_create_called_in_constructor:
  assumes "objects w this = None"
  shows "\<exists>w'. ObjectLifetimeHook_construct run this on_create on_destroy_arg w = Some w'
           \<and> events w' = events w @
               (case on_create of None \<Rightarrow> [] | Some c \<Rightarrow> [Invoke OnCreateParameter c])
           \<and> user w' =
               (case on_create of
                  None \<Rightarrow> user w
                | Some c \<Rightarrow> run c (w\<lparr>objects := (objects w)(this \<mapsto>
                                       \<lparr>on_destroy_member = on_destroy_arg\<rparr>)\<rparr>))
           \<and> objects w' = (objects w)(this \<mapsto> \<lparr>on_destroy_member = on_destroy_arg\<rparr>)
           \<and> (\<exists>w''. ObjectLifetimeHook_destroy run this w' = Some w''
                 \<and> events w'' = events w' @
                     (case on_destroy_arg of None \<Rightarrow> [] | Some c \<Rightarrow> [Invoke OnDestroyMember c]))"
  using assms
  by (simp add: ObjectLifetimeHook_construct_result ObjectLifetimeHook_destroy_result
      cong: option.case_cong)

theorem on_create_called_in_constructor_witness:
  "objects (start :: (nat, nat) lifetime_world) 0 = None
   \<and> (\<exists>w'. ObjectLifetimeHook_construct add_to_counter 0 (Some 7) (Some 9) start = Some w'
          \<and> events w' = [Invoke OnCreateParameter 7]
          \<and> user w' = 7
          \<and> objects w' 0 = Some \<lparr>on_destroy_member = Some 9\<rparr>
          \<and> (\<exists>w''. ObjectLifetimeHook_destroy add_to_counter 0 w' = Some w''
                \<and> events w'' = [Invoke OnCreateParameter 7, Invoke OnDestroyMember 9]))
   \<and> (\<exists>w'. ObjectLifetimeHook_construct add_to_counter 0 None (Some 9) start = Some w'
          \<and> events w' = []
          \<and> user w' = 0)"
  using on_create_called_in_constructor [of start 0 add_to_counter "Some 7" "Some 9"]
    on_create_called_in_constructor [of start 0 add_to_counter None "Some 9"]
  by (auto simp: start_def add_to_counter_def)

text \<open>
  C7. Destroying a live ObjectLifetimeHook, however it came to be, calls its stored
  destroy callback once if it is set and calls nothing if it is empty; the object is
  gone afterwards, so it is not destroyed (and the callback not called) a second time.
  The only other operation of the class, the constructor, never calls through the
  stored destroy callback: its only call is through its create parameter.
\<close>

theorem on_destroy_called_once_at_destruction:
  assumes "objects w this = Some h" and "objects w fresh = None"
  shows "(\<exists>w'. ObjectLifetimeHook_destroy run this w = Some w'
            \<and> events w' = events w @
                (case on_destroy_member h of None \<Rightarrow> [] | Some c \<Rightarrow> [Invoke OnDestroyMember c])
            \<and> user w' = (case on_destroy_member h of None \<Rightarrow> user w | Some c \<Rightarrow> run c w)
            \<and> objects w' = (objects w)(this := None)
            \<and> ObjectLifetimeHook_destroy run this w' = None)
         \<and> (\<exists>w'. ObjectLifetimeHook_construct run fresh on_create on_destroy_arg w = Some w'
            \<and> objects w' fresh = Some \<lparr>on_destroy_member = on_destroy_arg\<rparr>
            \<and> events w' = events w @
                (case on_create of None \<Rightarrow> [] | Some c \<Rightarrow> [Invoke OnCreateParameter c]))"
  using assms
  by (simp add: ObjectLifetimeHook_construct_result ObjectLifetimeHook_destroy_result
      ObjectLifetimeHook_destroy_def cong: option.case_cong)

theorem on_destroy_called_once_at_destruction_witness:
  "objects two_lifetime_hooks 0 = Some \<lparr>on_destroy_member = Some 9\<rparr>
   \<and> objects two_lifetime_hooks 2 = Some \<lparr>on_destroy_member = None\<rparr>
   \<and> objects two_lifetime_hooks 4 = None
   \<and> (\<exists>w'. ObjectLifetimeHook_destroy add_to_counter 0 two_lifetime_hooks = Some w'
          \<and> events w' = [Invoke OnDestroyMember 9] \<and> user w' = 9 \<and> objects w' 0 = None)
   \<and> (\<exists>w'. ObjectLifetimeHook_destroy add_to_counter 2 two_lifetime_hooks = Some w'
          \<and> events w' = [] \<and> user w' = 0 \<and> objects w' 2 = None)
   \<and> (\<exists>w'. ObjectLifetimeHook_construct add_to_counter 4 (Some 9) (Some 9) two_lifetime_hooks = Some w'
          \<and> events w' = [Invoke OnCreateParameter 9])"
  using on_destroy_called_once_at_destruction
          [of two_lifetime_hooks 0 "\<lparr>on_destroy_member = Some 9\<rparr>" 4 add_to_counter "Some 9" "Some 9"]
        on_destroy_called_once_at_destruction
          [of two_lifetime_hooks 2 "\<lparr>on_destroy_member = None\<rparr>" 4 add_to_counter "Some 9" "Some 9"]
  by (auto simp: two_lifetime_hooks_def add_to_counter_def)

end
